theory Spec2Isabelle
  imports
    Main
    "HOL-Library.DAList"
    "HOL-Library.Char_ord"
    "HOL-Library.List_Lexorder"
    "HOL-Library.Multiset"
begin

section \<open>The in-memory evaluation repository\<close>

text \<open>
  Source: \<^verbatim>\<open>intelligence_layer/evaluation/evaluation/in_memory_evaluation_repository.py\<close>.

  Python strings are \<^typ>\<open>string\<close>; their order (\<^verbatim>\<open>sorted\<close> on \<^verbatim>\<open>str\<close>) is the
  lexicographic order on character codes, which is the order of
  \<^theory_text>\<open>List_Lexorder\<close> over \<^theory_text>\<open>Char_ord\<close>.

  A Python \<^verbatim>\<open>dict\<close> keeps its keys unique and in insertion order; assigning to a key that
  is present keeps the key's position. That is the type \<^typ>\<open>('k, 'v) alist\<close> of
  association lists with distinct keys, with \<^const>\<open>DAList.update\<close> for
  \<^verbatim>\<open>d[k] = v\<close> and \<^const>\<open>DAList.lookup\<close> for \<^verbatim>\<open>d.get(k, None)\<close>.
\<close>

subsection \<open>Domain records\<close>

text \<open>
  The classes \<^verbatim>\<open>EvaluationOverview\<close>, \<^verbatim>\<open>PartialEvaluationOverview\<close> and
  \<^verbatim>\<open>ExampleEvaluation\<close> are declared in \<^verbatim>\<open>evaluation/domain.py\<close>. The repository
  reads only their \<^verbatim>\<open>id\<close>, \<^verbatim>\<open>evaluation_id\<close> and \<^verbatim>\<open>example_id\<close> attributes; everything
  else an object carries is a type parameter. The attribute \<^verbatim>\<open>id\<close> is written
  \<open>overview_id\<close> and \<open>partial_overview_id\<close>, since \<^const>\<open>id\<close> is the identity of HOL.
\<close>

record 'm EvaluationOverview =
  overview_id :: string
  run_metadata :: 'm

record 'p PartialEvaluationOverview =
  partial_overview_id :: string
  partial_metadata :: 'p

record 'r ExampleEvaluation =
  evaluation_id :: string
  example_id :: string
  result :: 'r

datatype error = ValueError string

subsection \<open>Dictionaries\<close>

definition keys :: "('k, 'v) alist \<Rightarrow> 'k list" where
  \<comment> \<open>\<^verbatim>\<open>list(d.keys())\<close>: the keys in insertion order\<close>
  "keys d = map fst (DAList.impl_of d)"

definition defaultdict_getitem_append :: "'k \<Rightarrow> 'a \<Rightarrow> ('k, 'a list) alist \<Rightarrow> ('k, 'a list) alist" where
  \<comment> \<open>\<^verbatim>\<open>d[k].append(x)\<close> on a \<^verbatim>\<open>defaultdict(list)\<close>: a missing key is first inserted
      with the value \<^verbatim>\<open>[]\<close>, then the list under the key is extended in place\<close>
  "defaultdict_getitem_append k x d = DAList.map_default k [x] (\<lambda>xs. xs @ [x]) d"

subsection \<open>The repository classes\<close>

text \<open>
  The attributes \<^verbatim>\<open>_example_evaluations\<close>, \<^verbatim>\<open>_evaluation_overviews\<close> and
  \<^verbatim>\<open>_partial_evaluation_overviews\<close> carry the prefix \<open>priv\<close> here (an Isabelle name
  cannot start with an underscore). The subclass is the record extension; the methods of
  the base class are defined on the record scheme, so they apply to both classes, as
  inheritance does.
\<close>

record ('r, 'm) InMemoryEvaluationRepository =
  priv_example_evaluations :: "(string, 'r ExampleEvaluation list) alist"
  priv_evaluation_overviews :: "(string, 'm EvaluationOverview) alist"

record ('r, 'm, 'p) AsyncInMemoryEvaluationRepository =
  "('r, 'm) InMemoryEvaluationRepository" +
  priv_partial_evaluation_overviews :: "(string, 'p PartialEvaluationOverview) alist"

definition InMemoryEvaluationRepository_init :: "('r, 'm) InMemoryEvaluationRepository" where
  "InMemoryEvaluationRepository_init =
     \<lparr>priv_example_evaluations = DAList.empty, priv_evaluation_overviews = DAList.empty\<rparr>"

definition AsyncInMemoryEvaluationRepository_init ::
  "('r, 'm, 'p) AsyncInMemoryEvaluationRepository" where
  "AsyncInMemoryEvaluationRepository_init =
     \<lparr>priv_example_evaluations = DAList.empty, priv_evaluation_overviews = DAList.empty,
      priv_partial_evaluation_overviews = DAList.empty\<rparr>"

definition store_evaluation_overview ::
  "'m EvaluationOverview \<Rightarrow> ('r, 'm, 'z) InMemoryEvaluationRepository_scheme
     \<Rightarrow> ('r, 'm, 'z) InMemoryEvaluationRepository_scheme" where
  "store_evaluation_overview overview self =
     (let self1 = self\<lparr>priv_evaluation_overviews :=
                   DAList.update (overview_id overview) overview (priv_evaluation_overviews self)\<rparr>
      in if overview_id overview \<notin> set (keys (priv_example_evaluations self1))
         then self1\<lparr>priv_example_evaluations :=
                DAList.update (overview_id overview) [] (priv_example_evaluations self1)\<rparr>
         else self1)"

definition evaluation_overview ::
  "('r, 'm, 'z) InMemoryEvaluationRepository_scheme \<Rightarrow> string \<Rightarrow> 'm EvaluationOverview option" where
  "evaluation_overview self evaluation_id' = DAList.lookup (priv_evaluation_overviews self) evaluation_id'"

definition evaluation_overview_ids ::
  "('r, 'm, 'z) InMemoryEvaluationRepository_scheme \<Rightarrow> string list" where
  "evaluation_overview_ids self = sort (keys (priv_evaluation_overviews self))"

definition store_example_evaluation ::
  "'r ExampleEvaluation \<Rightarrow> ('r, 'm, 'z) InMemoryEvaluationRepository_scheme
     \<Rightarrow> ('r, 'm, 'z) InMemoryEvaluationRepository_scheme" where
  "store_example_evaluation evaluation self =
     self\<lparr>priv_example_evaluations :=
       defaultdict_getitem_append (evaluation_id evaluation) evaluation (priv_example_evaluations self)\<rparr>"

text \<open>
  \<^verbatim>\<open>example_evaluations\<close> tests the key with \<^verbatim>\<open>in ... .keys()\<close>, which does not insert a
  default; the later \<^verbatim>\<open>self._example_evaluations[evaluation_id]\<close> finds the key present
  (on a missing key the \<^verbatim>\<open>defaultdict\<close> would give \<^verbatim>\<open>[]\<close>, the \<open>None\<close> case below).
  \<^verbatim>\<open>sorted(..., key=...)\<close> is stable, as \<^const>\<open>sort_key\<close> is. The parameter
  \<^verbatim>\<open>evaluation_type\<close> only feeds \<^verbatim>\<open>typing.cast\<close>, which returns its argument unchanged,
  so the model has no such parameter.
\<close>

definition example_evaluations ::
  "('r, 'm, 'z) InMemoryEvaluationRepository_scheme \<Rightarrow> string \<Rightarrow> error + 'r ExampleEvaluation list" where
  "example_evaluations self evaluation_id' =
     (if evaluation_id' \<notin> set (keys (priv_example_evaluations self))
      then Inl (ValueError (''Repository does not contain an evaluation with id: '' @ evaluation_id'))
      else Inr (sort_key example_id
             (case DAList.lookup (priv_example_evaluations self) evaluation_id' of
                None \<Rightarrow> [] | Some example_evaluations' \<Rightarrow> example_evaluations')))"

definition example_evaluation ::
  "('r, 'm, 'z) InMemoryEvaluationRepository_scheme \<Rightarrow> string \<Rightarrow> string
     \<Rightarrow> error + 'r ExampleEvaluation option" where
  "example_evaluation self evaluation_id' example_id' =
     (case example_evaluations self evaluation_id' of
        Inl e \<Rightarrow> Inl e
      | Inr results \<Rightarrow> Inr (List.find (\<lambda>result'. example_id result' = example_id') results))"

definition store_partial_evaluation_overview ::
  "'p PartialEvaluationOverview \<Rightarrow> ('r, 'm, 'p) AsyncInMemoryEvaluationRepository
     \<Rightarrow> ('r, 'm, 'p) AsyncInMemoryEvaluationRepository" where
  "store_partial_evaluation_overview overview self =
     (let self1 = self\<lparr>priv_partial_evaluation_overviews :=
                   DAList.update (partial_overview_id overview) overview
                     (priv_partial_evaluation_overviews self)\<rparr>
      in if partial_overview_id overview \<notin> set (keys (priv_example_evaluations self1))
         then self1\<lparr>priv_example_evaluations :=
                DAList.update (partial_overview_id overview) [] (priv_example_evaluations self1)\<rparr>
         else self1)"

definition partial_evaluation_overview ::
  "('r, 'm, 'p) AsyncInMemoryEvaluationRepository \<Rightarrow> string \<Rightarrow> 'p PartialEvaluationOverview option" where
  "partial_evaluation_overview self evaluation_id' =
     DAList.lookup (priv_partial_evaluation_overviews self) evaluation_id'"

definition partial_evaluation_overview_ids ::
  "('r, 'm, 'p) AsyncInMemoryEvaluationRepository \<Rightarrow> string list" where
  "partial_evaluation_overview_ids self = sort (keys (priv_partial_evaluation_overviews self))"

subsection \<open>Sequences of calls\<close>

text \<open>
  The callers of the repository are outside the source at hand; what they can do to a
  repository object is a sequence of the three storing calls. A call names the overview
  id it registers.
\<close>

datatype ('r, 'm, 'p) call =
    Store_evaluation_overview "'m EvaluationOverview"
  | Store_example_evaluation "'r ExampleEvaluation"
  | Store_partial_evaluation_overview "'p PartialEvaluationOverview"

fun call_id :: "('r, 'm, 'p) call \<Rightarrow> string" where
  "call_id (Store_evaluation_overview overview) = overview_id overview"
| "call_id (Store_example_evaluation evaluation) = evaluation_id evaluation"
| "call_id (Store_partial_evaluation_overview overview) = partial_overview_id overview"

fun do_call ::
  "('r, 'm, 'p) call \<Rightarrow> ('r, 'm, 'p) AsyncInMemoryEvaluationRepository
     \<Rightarrow> ('r, 'm, 'p) AsyncInMemoryEvaluationRepository" where
  "do_call (Store_evaluation_overview overview) self = store_evaluation_overview overview self"
| "do_call (Store_example_evaluation evaluation) self = store_example_evaluation evaluation self"
| "do_call (Store_partial_evaluation_overview overview) self =
     store_partial_evaluation_overview overview self"

fun do_calls ::
  "('r, 'm, 'p) call list \<Rightarrow> ('r, 'm, 'p) AsyncInMemoryEvaluationRepository
     \<Rightarrow> ('r, 'm, 'p) AsyncInMemoryEvaluationRepository" where
  "do_calls [] self = self"
| "do_calls (c # cs) self = do_calls cs (do_call c self)"

fun store_example_evaluations_in_order ::
  "'r ExampleEvaluation list \<Rightarrow> ('r, 'm, 'z) InMemoryEvaluationRepository_scheme
     \<Rightarrow> ('r, 'm, 'z) InMemoryEvaluationRepository_scheme" where
  "store_example_evaluations_in_order [] self = self"
| "store_example_evaluations_in_order (e # es) self =
     store_example_evaluations_in_order es (store_example_evaluation e self)"

definition stored_under ::
  "('r, 'm, 'z) InMemoryEvaluationRepository_scheme \<Rightarrow> string \<Rightarrow> 'r ExampleEvaluation list" where
  \<comment> \<open>the results held under an overview id, in the order of their insertion; none for
      an id that is not a key\<close>
  "stored_under self i =
     (case DAList.lookup (priv_example_evaluations self) i of None \<Rightarrow> [] | Some xs \<Rightarrow> xs)"

section \<open>The model abstraction\<close>

text \<open>
  Source: \<^verbatim>\<open>intelligence_layer/core/model.py\<close>.
\<close>

subsection \<open>Objects and references\<close>

text \<open>
  \<^verbatim>\<open>Llama3InstructModel._add_eot_token_to_stop_sequences\<close> works on \<^verbatim>\<open>input.__dict__\<close>,
  the attribute dictionary of the caller's object itself, and on the list object that the
  attribute \<^verbatim>\<open>stop_sequences\<close> refers to. So objects live in a store: every
  \<^verbatim>\<open>CompleteInput\<close> object has an address, whose entry is its \<^verbatim>\<open>__dict__\<close>; the
  attribute \<^verbatim>\<open>stop_sequences\<close> (\<^verbatim>\<open>Optional[List[str]]\<close> in the client library) is
  \<^verbatim>\<open>None\<close> or the address of a list object. The other fields of a completion request
  (prompt, maximum tokens, ...) are never read by the code at hand and are a type
  parameter.
\<close>

type_synonym addr = nat

record 'p params =
  stop_sequences :: "addr option"
  other_fields :: 'p

record 'p heap =
  objects :: "addr \<Rightarrow> 'p params"
  lists :: "addr \<Rightarrow> string list"
  next_object :: addr
  next_list :: addr

record 'p CompletionRequest =
  request_stop_sequences :: "string list option"
  request_other_fields :: 'p

definition EOT_TOKEN :: string where
  "EOT_TOKEN = ''<|eot_id|>''"

definition read_stop_sequences :: "'p heap \<Rightarrow> addr \<Rightarrow> string list option" where
  \<comment> \<open>what \<^verbatim>\<open>input.stop_sequences\<close> holds: \<^verbatim>\<open>None\<close>, or the elements of the list\<close>
  "read_stop_sequences h input = map_option (lists h) (stop_sequences (objects h input))"

definition new_list :: "string list \<Rightarrow> 'p heap \<Rightarrow> 'p heap \<times> addr" where
  "new_list xs h = (h\<lparr>lists := (lists h)(next_list h := xs), next_list := Suc (next_list h)\<rparr>, next_list h)"

definition CompleteInput_init :: "string list option \<Rightarrow> 'p \<Rightarrow> 'p heap \<Rightarrow> 'p heap \<times> addr" where
  \<comment> \<open>\<^verbatim>\<open>CompleteInput(stop_sequences=..., ...)\<close>: a new object; the validation of the
      arguments builds a new list object from a list argument\<close>
  "CompleteInput_init stop_sequences' others h =
     (let (h1, ss) = (case stop_sequences' of
                        None \<Rightarrow> (h, None)
                      | Some xs \<Rightarrow> (let (h', l') = new_list xs h in (h', Some l')))
      in (h1\<lparr>objects := (objects h1)(next_object h1 :=
                 \<lparr>stop_sequences = ss, other_fields = others\<rparr>),
              next_object := Suc (next_object h1)\<rparr>, next_object h1))"

definition new_CompleteInput :: "'p params \<Rightarrow> 'p heap \<Rightarrow> 'p heap \<times> addr" where
  \<comment> \<open>\<^verbatim>\<open>CompleteInput(**params)\<close>: the constructor, given what the entries of \<open>params\<close> hold\<close>
  "new_CompleteInput ps h =
     CompleteInput_init (map_option (lists h) (stop_sequences ps)) (other_fields ps) h"

definition to_completion_request :: "'p heap \<Rightarrow> addr \<Rightarrow> 'p CompletionRequest" where
  \<comment> \<open>\<^verbatim>\<open>CompletionRequest(**self.__dict__)\<close>, as the client reads it when it is sent\<close>
  "to_completion_request h self =
     \<lparr>request_stop_sequences = read_stop_sequences h self,
      request_other_fields = other_fields (objects h self)\<rparr>"

subsection \<open>Completion\<close>

text \<open>
  The client is a parameter: a function from the request and the model name to the
  response. \<^verbatim>\<open>CompleteOutput.from_completion_response\<close> copies the fields of the response,
  so the output is the response. \<^verbatim>\<open>Task.run\<close> (in \<^verbatim>\<open>core/task.py\<close>) opens a span of the
  tracer and calls \<^verbatim>\<open>do_run\<close> in it; the span is the list of its log entries.
\<close>

definition Complete_do_run ::
  "('p CompletionRequest \<Rightarrow> string \<Rightarrow> 'o) \<Rightarrow> string \<Rightarrow> 'p heap \<Rightarrow> addr
     \<Rightarrow> (string \<times> string) list \<Rightarrow> (string \<times> string) list \<times> 'o" where
  "Complete_do_run client model h input task_span =
     (task_span @ [(''Model'', model)], client (to_completion_request h input) model)"

definition AlephAlphaModel_complete ::
  "('p CompletionRequest \<Rightarrow> string \<Rightarrow> 'o) \<Rightarrow> string \<Rightarrow> 'p heap \<Rightarrow> addr
     \<Rightarrow> (string \<times> string) list \<Rightarrow> (string \<times> string) list \<times> 'o" where
  "AlephAlphaModel_complete client name h input tracer = Complete_do_run client name h input tracer"

definition add_eot_token_to_stop_sequences :: "'p heap \<Rightarrow> addr \<Rightarrow> 'p heap \<times> addr" where
  \<comment> \<open>\<^verbatim>\<open>params = input.__dict__\<close> is the entry \<open>objects h input\<close> itself, not a copy\<close>
  "add_eot_token_to_stop_sequences h input =
     (let h1 =
        (case stop_sequences (objects h input) of
           Some l \<Rightarrow>
             if EOT_TOKEN \<notin> set (lists h l)
             then h\<lparr>lists := (lists h)(l := lists h l @ [EOT_TOKEN])\<rparr>
             else h
         | None \<Rightarrow>
             (let (h', l') = new_list [EOT_TOKEN] h
              in h'\<lparr>objects := (objects h')(input := (objects h' input)\<lparr>stop_sequences := Some l'\<rparr>)\<rparr>))
      in new_CompleteInput (objects h1 input) h1)"

definition Llama3InstructModel_complete ::
  "('p CompletionRequest \<Rightarrow> string \<Rightarrow> 'o) \<Rightarrow> string \<Rightarrow> 'p heap \<Rightarrow> addr
     \<Rightarrow> (string \<times> string) list \<Rightarrow> 'p heap \<times> (string \<times> string) list \<times> 'o" where
  "Llama3InstructModel_complete client name h input tracer =
     (let (h1, input_with_eot) = add_eot_token_to_stop_sequences h input
      in (h1, AlephAlphaModel_complete client name h1 input_with_eot tracer))"

text \<open>
  For running the code on given inputs: the store with no object yet, the store after
  the caller has built one \<^verbatim>\<open>CompleteInput\<close> in it (the object has address \<open>0\<close>), and a
  client that answers with the request and the model name it was sent.
\<close>

definition empty_heap :: "unit heap" where
  "empty_heap =
     \<lparr>objects = (\<lambda>_. \<lparr>stop_sequences = None, other_fields = ()\<rparr>), lists = (\<lambda>_. []),
      next_object = 0, next_list = 0\<rparr>"

definition heap_with_input :: "string list option \<Rightarrow> unit heap" where
  "heap_with_input stop_sequences' = fst (CompleteInput_init stop_sequences' () empty_heap)"

definition recording_client :: "'p CompletionRequest \<Rightarrow> string \<Rightarrow> 'p CompletionRequest \<times> string" where
  "recording_client request model = (request, model)"

subsection \<open>The context size\<close>

text \<open>
  Modelled from the spec: the entries of the client's model registry, which
  \<^verbatim>\<open>self._client.models()\<close> returns, are declared outside the source at hand; the spec gives
  them as \<^verbatim>\<open>{name, max_context_size, ...}\<close>. The field \<^verbatim>\<open>name\<close> of an entry is written
  \<open>info_name\<close>.
\<close>

record model_info =
  info_name :: string
  max_context_size :: int

text \<open>
  A model object has an identity and its attribute \<^verbatim>\<open>name\<close>, which \<^verbatim>\<open>__init__\<close> sets
  and which, as a plain attribute, can be assigned again: a record with another \<open>name\<close>
  and the same \<open>object_id\<close> is the same object after such an assignment.
  \<^verbatim>\<open>models_info\<close> is what the call \<^verbatim>\<open>self._client.models()\<close> returns when it is made.
\<close>

record AlephAlphaModel =
  object_id :: nat
  name :: string

definition context_size_body :: "model_info list \<Rightarrow> AlephAlphaModel \<Rightarrow> error + int" where
  "context_size_body models_info self =
     (case List.find (\<lambda>model_info. info_name model_info = name self) models_info of
        None \<Rightarrow> Inl (ValueError (''No matching model found for name '' @ name self))
      | Some model_info \<Rightarrow> Inr (max_context_size model_info))"

text \<open>
  \<^verbatim>\<open>functools.lru_cache(maxsize)\<close> around a function of one argument: the cache is a list
  of pairs of a key and a result, the least recently used first. The key of an argument
  is what its hash and equality see. A hit returns the cached result without calling the
  function and makes the entry the most recent; a miss calls the function, an exception
  leaves the cache as it is, a result is added, and the least recently used entry goes
  when the cache is full.

  The cache of \<^verbatim>\<open>context_size\<close> is one for all model objects, with \<^verbatim>\<open>self\<close> as the
  argument. \<^verbatim>\<open>AlephAlphaModel\<close> defines neither \<^verbatim>\<open>__eq__\<close> nor \<^verbatim>\<open>__hash__\<close>, so the key
  of a model object is its identity, whatever its \<^verbatim>\<open>name\<close> is at the time.
\<close>

definition lru_cache ::
  "nat \<Rightarrow> ('a \<Rightarrow> 'k) \<Rightarrow> ('a \<Rightarrow> error + 'v) \<Rightarrow> ('k \<times> 'v) list \<Rightarrow> 'a
     \<Rightarrow> (error + 'v) \<times> ('k \<times> 'v) list" where
  "lru_cache maxsize key f cache x =
     (case map_of cache (key x) of
        Some v \<Rightarrow> (Inr v, filter (\<lambda>entry. fst entry \<noteq> key x) cache @ [(key x, v)])
      | None \<Rightarrow>
          (case f x of
             Inl e \<Rightarrow> (Inl e, cache)
           | Inr v \<Rightarrow> (Inr v, (if maxsize \<le> length cache then tl cache else cache) @ [(key x, v)])))"

definition context_size ::
  "model_info list \<Rightarrow> (nat \<times> int) list \<Rightarrow> AlephAlphaModel \<Rightarrow> (error + int) \<times> (nat \<times> int) list" where
  "context_size models_info cache self =
     lru_cache 10 object_id (context_size_body models_info) cache self"

section \<open>Properties of the repository\<close>

subsection \<open>Dictionaries and the effect of each call\<close>

lemma keys_lookup: "k \<in> set (keys d) \<longleftrightarrow> DAList.lookup d k \<noteq> None"
  unfolding keys_def by transfer (simp add: map_of_eq_None_iff)

lemma lookup_getitem_append:
  "DAList.lookup (defaultdict_getitem_append k x d) k' =
     (if k' = k then Some ((case DAList.lookup d k of None \<Rightarrow> [] | Some xs \<Rightarrow> xs) @ [x])
      else DAList.lookup d k')"
  unfolding defaultdict_getitem_append_def
  by transfer (auto simp: map_of_map_default split: option.splits)

lemma keys_update:
  "keys (DAList.update k v d) = (if k \<in> set (keys d) then keys d else keys d @ [k])"
  unfolding keys_def by transfer (simp add: update_keys)

lemma distinct_keys: "distinct (keys d)"
  unfolding keys_def by simp

lemma example_evaluations_lookup:
  "example_evaluations self i =
     (case DAList.lookup (priv_example_evaluations self) i of
        None \<Rightarrow> Inl (ValueError (''Repository does not contain an evaluation with id: '' @ i))
      | Some xs \<Rightarrow> Inr (sort_key example_id xs))"
  by (auto simp: example_evaluations_def keys_lookup split: option.splits)

lemma ee_store_evaluation_overview:
  "DAList.lookup (priv_example_evaluations (store_evaluation_overview ov self)) i =
     (if i = overview_id ov \<and> DAList.lookup (priv_example_evaluations self) i = None
      then Some [] else DAList.lookup (priv_example_evaluations self) i)"
  by (auto simp: store_evaluation_overview_def Let_def keys_lookup DAList.lookup_update)

lemma ov_store_evaluation_overview:
  "DAList.lookup (priv_evaluation_overviews (store_evaluation_overview ov self)) i =
     (if i = overview_id ov then Some ov else DAList.lookup (priv_evaluation_overviews self) i)"
  by (auto simp: store_evaluation_overview_def Let_def DAList.lookup_update)

lemma ee_store_example_evaluation:
  "DAList.lookup (priv_example_evaluations (store_example_evaluation e self)) i =
     (if i = evaluation_id e then Some (stored_under self i @ [e])
      else DAList.lookup (priv_example_evaluations self) i)"
  by (simp add: store_example_evaluation_def lookup_getitem_append stored_under_def)

lemma ov_store_example_evaluation:
  "priv_evaluation_overviews (store_example_evaluation e self) = priv_evaluation_overviews self"
  by (simp add: store_example_evaluation_def)

lemma ee_store_partial_evaluation_overview:
  "DAList.lookup (priv_example_evaluations (store_partial_evaluation_overview p self)) i =
     (if i = partial_overview_id p \<and> DAList.lookup (priv_example_evaluations self) i = None
      then Some [] else DAList.lookup (priv_example_evaluations self) i)"
  by (auto simp: store_partial_evaluation_overview_def Let_def keys_lookup DAList.lookup_update)

lemma ov_store_partial_evaluation_overview:
  "priv_evaluation_overviews (store_partial_evaluation_overview p self) = priv_evaluation_overviews self"
  by (simp add: store_partial_evaluation_overview_def Let_def)

lemma pov_store_partial_evaluation_overview:
  "DAList.lookup (priv_partial_evaluation_overviews (store_partial_evaluation_overview p self)) i =
     (if i = partial_overview_id p then Some p
      else DAList.lookup (priv_partial_evaluation_overviews self) i)"
  by (auto simp: store_partial_evaluation_overview_def Let_def DAList.lookup_update)

lemma pov_store_evaluation_overview:
  "priv_partial_evaluation_overviews (store_evaluation_overview ov self) =
     priv_partial_evaluation_overviews self"
  by (simp add: store_evaluation_overview_def Let_def)

lemma pov_store_example_evaluation:
  "priv_partial_evaluation_overviews (store_example_evaluation e self) =
     priv_partial_evaluation_overviews self"
  by (simp add: store_example_evaluation_def)

lemma stored_under_in_order:
  "stored_under (store_example_evaluations_in_order es self) i =
     stored_under self i @ filter (\<lambda>e. evaluation_id e = i) es"
proof (induction es arbitrary: self)
  case Nil
  show ?case by simp
next
  case (Cons e es)
  have "stored_under (store_example_evaluation e self) i =
          stored_under self i @ filter (\<lambda>e. evaluation_id e = i) [e]"
    by (simp add: stored_under_def ee_store_example_evaluation)
  with Cons.IH [of "store_example_evaluation e self"] show ?case by simp
qed

lemma registered_in_order:
  "DAList.lookup (priv_example_evaluations self) i \<noteq> None \<Longrightarrow>
   DAList.lookup (priv_example_evaluations (store_example_evaluations_in_order es self)) i \<noteq> None"
  by (induction es arbitrary: self) (simp_all add: ee_store_example_evaluation)

lemma example_evaluations_registered:
  "DAList.lookup (priv_example_evaluations self) i \<noteq> None \<Longrightarrow>
   example_evaluations self i = Inr (sort_key example_id (stored_under self i))"
  by (auto simp: example_evaluations_lookup stored_under_def split: option.splits)

lemma filter_same_key_distinct:
  "distinct (map f zs) \<Longrightarrow> k \<in> set zs \<Longrightarrow> filter (\<lambda>x. f k = f x) zs = [k]"
proof (induction zs)
  case Nil
  then show ?case by simp
next
  case (Cons z zs)
  show ?case
  proof (cases "z = k")
    case True
    with Cons.prems have "\<forall>x\<in>set zs. f k \<noteq> f x" by auto
    then have "filter (\<lambda>x. f k = f x) zs = []" by (simp add: filter_empty_conv)
    with True show ?thesis by simp
  next
    case False
    with Cons.prems have kz: "k \<in> set zs" by simp
    then have "f k \<in> f ` set zs" by (rule imageI)
    with Cons.prems have "f k \<noteq> f z" by auto
    with Cons kz show ?thesis by simp
  qed
qed

lemma sort_key_permutation:
  assumes "mset ys = mset xs" and "distinct (map f xs)"
  shows "sort_key f ys = sort_key f xs"
proof (rule properties_for_sort_key)
  show "mset (sort_key f xs) = mset ys" using assms(1) by simp
  show "sorted (map f (sort_key f xs))" by simp
  fix k assume "k \<in> set (sort_key f xs)"
  then have kx: "k \<in> set xs" by simp
  then have ky: "k \<in> set ys" using assms(1) by (metis mset_eq_setD)
  have "mset (map f ys) = mset (map f xs)" using assms(1) by simp
  then have dy: "distinct (map f ys)" using assms(2) by (metis mset_eq_imp_distinct_iff)
  have "filter (\<lambda>x. f k = f x) (sort_key f xs) = filter (\<lambda>x. f k = f x) xs"
    by (metis (mono_tags, lifting) filter_cong sort_key_stable)
  also have "\<dots> = [k]" using assms(2) kx by (rule filter_same_key_distinct)
  also have "\<dots> = filter (\<lambda>x. f k = f x) ys" using dy ky by (rule filter_same_key_distinct [symmetric])
  finally show "filter (\<lambda>x. f k = f x) (sort_key f xs) = filter (\<lambda>x. f k = f x) ys" .
qed

lemma sorted_distinct_strict:
  "distinct (map f xs) \<Longrightarrow> sorted_wrt (<) (map f (sort_key f xs))"
proof -
  assume d: "distinct (map f xs)"
  have "mset (map f (sort_key f xs)) = mset (map f xs)" by simp
  then have "distinct (map f (sort_key f xs))" using d by (metis mset_eq_imp_distinct_iff)
  moreover have "sorted (map f (sort_key f xs))" by simp
  ultimately show ?thesis by (simp add: strict_sorted_iff)
qed

lemma count_list_distinct: "distinct xs \<Longrightarrow> x \<in> set xs \<Longrightarrow> count_list xs x = 1"
  by (induction xs) (auto simp: count_list_0_iff)

lemma find_filter:
  "List.find P xs = (case filter P xs of [] \<Rightarrow> None | x # _ \<Rightarrow> Some x)"
  by (induction xs) simp_all

lemma find_sort_key_stable:
  "List.find (\<lambda>y. f y = k) (sort_key f xs) = List.find (\<lambda>y. f y = k) xs"
  by (simp add: find_filter sort_key_stable)

lemma untouched_do_call:
  "call_id c \<noteq> i \<Longrightarrow>
   DAList.lookup (priv_example_evaluations (do_call c self)) i =
     DAList.lookup (priv_example_evaluations self) i \<and>
   DAList.lookup (priv_evaluation_overviews (do_call c self)) i =
     DAList.lookup (priv_evaluation_overviews self) i \<and>
   DAList.lookup (priv_partial_evaluation_overviews (do_call c self)) i =
     DAList.lookup (priv_partial_evaluation_overviews self) i"
  by (cases c)
    (auto simp: ee_store_evaluation_overview ov_store_evaluation_overview
      pov_store_evaluation_overview ee_store_example_evaluation ov_store_example_evaluation
      pov_store_example_evaluation ee_store_partial_evaluation_overview
      ov_store_partial_evaluation_overview pov_store_partial_evaluation_overview)

lemma untouched_do_calls:
  "\<forall>c\<in>set cs. call_id c \<noteq> i \<Longrightarrow>
   DAList.lookup (priv_example_evaluations (do_calls cs self)) i =
     DAList.lookup (priv_example_evaluations self) i \<and>
   DAList.lookup (priv_evaluation_overviews (do_calls cs self)) i =
     DAList.lookup (priv_evaluation_overviews self) i \<and>
   DAList.lookup (priv_partial_evaluation_overviews (do_calls cs self)) i =
     DAList.lookup (priv_partial_evaluation_overviews self) i"
proof (induction cs arbitrary: self)
  case Nil
  show ?case by simp
next
  case (Cons c cs)
  from Cons.prems have "call_id c \<noteq> i" and rest: "\<forall>c\<in>set cs. call_id c \<noteq> i" by simp_all
  from untouched_do_call [OF this(1), of self] Cons.IH [OF rest, of "do_call c self"]
  show ?case by simp
qed

lemma store_evaluation_overview_twice:
  "store_evaluation_overview ov (store_evaluation_overview ov self) = store_evaluation_overview ov self"
  by (simp add: store_evaluation_overview_def Let_def keys_update)

lemma store_evaluation_overview_funpow:
  "(store_evaluation_overview ov ^^ Suc n) self = store_evaluation_overview ov self"
  by (induction n) (simp_all add: store_evaluation_overview_twice)

lemma keys_store_evaluation_overview:
  "set (keys (priv_evaluation_overviews (store_evaluation_overview ov self))) =
     insert (overview_id ov) (set (keys (priv_evaluation_overviews self)))"
  by (auto simp: store_evaluation_overview_def Let_def keys_update)

subsection \<open>Storing and reading back\<close>

text \<open>
  C1 (as amended). After \<open>store_evaluation_overview(o)\<close>, \<open>evaluation_overview(o.id)\<close>
  returns \<open>o\<close>, and \<open>example_evaluations(o.id, T)\<close> does not raise: it returns the results
  that were stored under \<open>o.id\<close> before the call, sorted by example id, which is the empty
  sequence when none were.
\<close>

theorem C1_store_evaluation_overview_then_read:
  "evaluation_overview (store_evaluation_overview ov self) (overview_id ov) = Some ov \<and>
   example_evaluations (store_evaluation_overview ov self) (overview_id ov) =
     Inr (sort_key example_id (stored_under self (overview_id ov))) \<and>
   (stored_under self (overview_id ov) = [] \<longrightarrow>
      example_evaluations (store_evaluation_overview ov self) (overview_id ov) = Inr [])"
  by (auto simp: evaluation_overview_def ov_store_evaluation_overview example_evaluations_lookup
      ee_store_evaluation_overview stored_under_def split: option.splits)

theorem C1_store_evaluation_overview_then_read_witness:
  "stored_under (InMemoryEvaluationRepository_init :: (unit, unit) InMemoryEvaluationRepository) ''eval-1'' = [] \<and>
   example_evaluations
     (store_evaluation_overview \<lparr>overview_id = ''eval-1'', run_metadata = ()\<rparr>
        (InMemoryEvaluationRepository_init :: (unit, unit) InMemoryEvaluationRepository))
     ''eval-1'' = Inr []"
  using C1_store_evaluation_overview_then_read
    [of "\<lparr>overview_id = ''eval-1'', run_metadata = ()\<rparr>"
        "InMemoryEvaluationRepository_init :: (unit, unit) InMemoryEvaluationRepository"]
  by (simp add: stored_under_def InMemoryEvaluationRepository_init_def)

theorem C1_results_stored_before_overview_counterexample:
  "example_evaluations
     (store_evaluation_overview \<lparr>overview_id = ''eval-1'', run_metadata = ()\<rparr>
        (store_example_evaluation \<lparr>evaluation_id = ''eval-1'', example_id = ''a'', result = ()\<rparr>
           (InMemoryEvaluationRepository_init :: (unit, unit) InMemoryEvaluationRepository)))
     ''eval-1''
   = Inr [\<lparr>evaluation_id = ''eval-1'', example_id = ''a'', result = ()\<rparr>] \<and>
   example_evaluations
     (store_evaluation_overview \<lparr>overview_id = ''eval-1'', run_metadata = ()\<rparr>
        (store_example_evaluation \<lparr>evaluation_id = ''eval-1'', example_id = ''a'', result = ()\<rparr>
           (InMemoryEvaluationRepository_init :: (unit, unit) InMemoryEvaluationRepository)))
     ''eval-1''
   \<noteq> Inr []"
  by (simp add: example_evaluations_lookup ee_store_evaluation_overview
      ee_store_example_evaluation stored_under_def InMemoryEvaluationRepository_init_def)

text \<open>
  C2. An overview id that is not a key of a repository, and that none of the storing
  calls made on the repository since names, is unknown: \<open>example_evaluations(id, T)\<close>
  raises the not-found error, and \<open>evaluation_overview(id)\<close> (as
  \<open>partial_evaluation_overview(id)\<close>) returns \<open>None\<close>. The new repository has no key.
\<close>

theorem C2_never_stored_id:
  assumes "DAList.lookup (priv_example_evaluations self) i = None"
    and "DAList.lookup (priv_evaluation_overviews self) i = None"
    and "DAList.lookup (priv_partial_evaluation_overviews self) i = None"
    and "\<forall>c\<in>set cs. call_id c \<noteq> i"
  shows "example_evaluations (do_calls cs self) i =
           Inl (ValueError (''Repository does not contain an evaluation with id: '' @ i)) \<and>
         evaluation_overview (do_calls cs self) i = None \<and>
         partial_evaluation_overview (do_calls cs self) i = None"
  using untouched_do_calls [OF assms(4), of self] assms(1-3)
  by (simp add: example_evaluations_lookup evaluation_overview_def partial_evaluation_overview_def)

theorem C2_never_stored_id_witness:
  "example_evaluations
     (do_calls
        [Store_evaluation_overview \<lparr>overview_id = ''eval-1'', run_metadata = ()\<rparr>,
         Store_example_evaluation \<lparr>evaluation_id = ''eval-2'', example_id = ''a'', result = ()\<rparr>,
         Store_partial_evaluation_overview \<lparr>partial_overview_id = ''eval-3'', partial_metadata = ()\<rparr>]
        (AsyncInMemoryEvaluationRepository_init :: (unit, unit, unit) AsyncInMemoryEvaluationRepository))
     ''eval-4''
   = Inl (ValueError ''Repository does not contain an evaluation with id: eval-4'') \<and>
   evaluation_overview
     (do_calls
        [Store_evaluation_overview \<lparr>overview_id = ''eval-1'', run_metadata = ()\<rparr>,
         Store_example_evaluation \<lparr>evaluation_id = ''eval-2'', example_id = ''a'', result = ()\<rparr>,
         Store_partial_evaluation_overview \<lparr>partial_overview_id = ''eval-3'', partial_metadata = ()\<rparr>]
        (AsyncInMemoryEvaluationRepository_init :: (unit, unit, unit) AsyncInMemoryEvaluationRepository))
     ''eval-4''
   = None"
  using C2_never_stored_id
    [of "AsyncInMemoryEvaluationRepository_init :: (unit, unit, unit) AsyncInMemoryEvaluationRepository"
        "''eval-4''"
        "[Store_evaluation_overview \<lparr>overview_id = ''eval-1'', run_metadata = ()\<rparr>,
          Store_example_evaluation \<lparr>evaluation_id = ''eval-2'', example_id = ''a'', result = ()\<rparr>,
          Store_partial_evaluation_overview \<lparr>partial_overview_id = ''eval-3'', partial_metadata = ()\<rparr>]"]
  by (simp add: AsyncInMemoryEvaluationRepository_init_def)

text \<open>
  C3. Let an overview id be registered with no result stored yet, and let \<open>es\<close> be example
  evaluations of that id with pairwise distinct example ids. After storing them with
  \<open>store_example_evaluation\<close> in any order \<open>es'\<close> (a permutation of \<open>es\<close>),
  \<open>example_evaluations(id, T)\<close> returns one and the same sequence: it holds exactly the
  elements of \<open>es\<close>, as many as \<open>es\<close> has, in strictly ascending order of example id.
\<close>

theorem C3_example_evaluations_sorted_any_order:
  assumes "DAList.lookup (priv_example_evaluations self) i = Some []"
    and "\<forall>e\<in>set es. evaluation_id e = i"
    and "distinct (map example_id es)"
    and "mset es' = mset es"
  shows "example_evaluations (store_example_evaluations_in_order es' self) i =
           Inr (sort_key example_id es) \<and>
         mset (sort_key example_id es) = mset es \<and>
         length (sort_key example_id es) = length es \<and>
         sorted_wrt (<) (map example_id (sort_key example_id es))"
proof -
  from assms(1) have reg: "DAList.lookup (priv_example_evaluations self) i \<noteq> None"
    and none: "stored_under self i = []"
    by (simp_all add: stored_under_def)
  from assms(4) have "set es' = set es" by (rule mset_eq_setD)
  with assms(2) have "\<forall>e\<in>set es'. evaluation_id e = i" by simp
  then have "filter (\<lambda>e. evaluation_id e = i) es' = es'" by (simp add: filter_id_conv)
  with none have "stored_under (store_example_evaluations_in_order es' self) i = es'"
    by (simp add: stored_under_in_order)
  with example_evaluations_registered [OF registered_in_order [OF reg, of es']]
  have "example_evaluations (store_example_evaluations_in_order es' self) i =
          Inr (sort_key example_id es')" by simp
  also have "sort_key example_id es' = sort_key example_id es"
    using assms(4) assms(3) by (rule sort_key_permutation)
  finally show ?thesis
    using sorted_distinct_strict [OF assms(3)] by simp
qed

theorem C3_example_evaluations_sorted_any_order_witness:
  "example_evaluations
     (store_example_evaluations_in_order
        [\<lparr>evaluation_id = ''eval-1'', example_id = ''b'', result = (1::nat)\<rparr>,
         \<lparr>evaluation_id = ''eval-1'', example_id = ''a'', result = 2\<rparr>]
        (store_evaluation_overview \<lparr>overview_id = ''eval-1'', run_metadata = ()\<rparr>
           (InMemoryEvaluationRepository_init :: (nat, unit) InMemoryEvaluationRepository)))
     ''eval-1''
   = Inr [\<lparr>evaluation_id = ''eval-1'', example_id = ''a'', result = 2\<rparr>,
          \<lparr>evaluation_id = ''eval-1'', example_id = ''b'', result = 1\<rparr>]"
  using C3_example_evaluations_sorted_any_order
    [of "store_evaluation_overview \<lparr>overview_id = ''eval-1'', run_metadata = ()\<rparr>
           (InMemoryEvaluationRepository_init :: (nat, unit) InMemoryEvaluationRepository)"
        "''eval-1''"
        "[\<lparr>evaluation_id = ''eval-1'', example_id = ''a'', result = 2\<rparr>,
          \<lparr>evaluation_id = ''eval-1'', example_id = ''b'', result = (1::nat)\<rparr>]"
        "[\<lparr>evaluation_id = ''eval-1'', example_id = ''b'', result = (1::nat)\<rparr>,
          \<lparr>evaluation_id = ''eval-1'', example_id = ''a'', result = 2\<rparr>]"]
  by (simp add: ee_store_evaluation_overview InMemoryEvaluationRepository_init_def)

text \<open>
  C6. For an overview id that is a key of neither dictionary (so
  \<open>example_evaluations(id, T)\<close> raises), \<open>store_example_evaluation\<close> of an example
  evaluation with that \<open>evaluation_id\<close> registers the id in the result store: afterwards
  \<open>example_evaluations(id, T)\<close> returns the stored result and no error, while
  \<open>evaluation_overview(id)\<close> still returns \<open>None\<close> and the listed overview ids are the same.
\<close>

theorem C6_store_example_evaluation_registers_id:
  assumes "DAList.lookup (priv_example_evaluations self) (evaluation_id e) = None"
    and "DAList.lookup (priv_evaluation_overviews self) (evaluation_id e) = None"
  shows "example_evaluations self (evaluation_id e) =
           Inl (ValueError (''Repository does not contain an evaluation with id: '' @ evaluation_id e)) \<and>
         example_evaluations (store_example_evaluation e self) (evaluation_id e) = Inr [e] \<and>
         evaluation_id e \<in> set (keys (priv_example_evaluations (store_example_evaluation e self))) \<and>
         evaluation_overview (store_example_evaluation e self) (evaluation_id e) = None \<and>
         evaluation_overview_ids (store_example_evaluation e self) = evaluation_overview_ids self"
  using assms
  by (simp add: example_evaluations_lookup ee_store_example_evaluation stored_under_def
      keys_lookup evaluation_overview_def evaluation_overview_ids_def ov_store_example_evaluation)

theorem C6_store_example_evaluation_registers_id_witness:
  "example_evaluations
     (store_example_evaluation \<lparr>evaluation_id = ''eval-1'', example_id = ''a'', result = ()\<rparr>
        (InMemoryEvaluationRepository_init :: (unit, unit) InMemoryEvaluationRepository))
     ''eval-1''
   = Inr [\<lparr>evaluation_id = ''eval-1'', example_id = ''a'', result = ()\<rparr>] \<and>
   evaluation_overview
     (store_example_evaluation \<lparr>evaluation_id = ''eval-1'', example_id = ''a'', result = ()\<rparr>
        (InMemoryEvaluationRepository_init :: (unit, unit) InMemoryEvaluationRepository))
     ''eval-1''
   = None"
  using C6_store_example_evaluation_registers_id
    [of "InMemoryEvaluationRepository_init :: (unit, unit) InMemoryEvaluationRepository"
        "\<lparr>evaluation_id = ''eval-1'', example_id = ''a'', result = ()\<rparr>"]
  by (simp add: InMemoryEvaluationRepository_init_def)

text \<open>
  C7. After \<open>store_partial_evaluation_overview(p)\<close>, \<open>example_evaluations(p.id, T)\<close> returns
  a sequence and does not raise: the results stored under \<open>p.id\<close> so far, sorted, hence the
  empty sequence if there are none. Example evaluations appended afterwards are kept by a
  later \<open>store_evaluation_overview\<close> of an overview with the same id: the result
  collection is the same before and after it, and so is what \<open>example_evaluations\<close>
  returns.
\<close>

theorem C7_partial_overview_shares_results:
  "example_evaluations (store_partial_evaluation_overview p self) (partial_overview_id p) =
     Inr (sort_key example_id (stored_under self (partial_overview_id p))) \<and>
   (stored_under self (partial_overview_id p) = [] \<longrightarrow>
      example_evaluations (store_partial_evaluation_overview p self) (partial_overview_id p) = Inr []) \<and>
   (overview_id ov = partial_overview_id p \<longrightarrow>
      priv_example_evaluations
        (store_evaluation_overview ov
           (store_example_evaluations_in_order es (store_partial_evaluation_overview p self))) =
      priv_example_evaluations
        (store_example_evaluations_in_order es (store_partial_evaluation_overview p self)) \<and>
      example_evaluations
        (store_evaluation_overview ov
           (store_example_evaluations_in_order es (store_partial_evaluation_overview p self)))
        (partial_overview_id p) =
      Inr (sort_key example_id
             (stored_under self (partial_overview_id p) @
              filter (\<lambda>e. evaluation_id e = partial_overview_id p) es)))"
proof -
  let ?i = "partial_overview_id p"
  let ?s1 = "store_partial_evaluation_overview p self"
  let ?s2 = "store_example_evaluations_in_order es ?s1"
  have reg1: "DAList.lookup (priv_example_evaluations ?s1) ?i \<noteq> None"
    by (simp add: ee_store_partial_evaluation_overview)
  have under1: "stored_under ?s1 ?i = stored_under self ?i"
    by (auto simp: stored_under_def ee_store_partial_evaluation_overview split: option.splits)
  have first: "example_evaluations ?s1 ?i = Inr (sort_key example_id (stored_under self ?i))"
    using example_evaluations_registered [OF reg1] under1 by simp
  have reg2: "DAList.lookup (priv_example_evaluations ?s2) ?i \<noteq> None"
    using reg1 by (rule registered_in_order)
  have under2: "stored_under ?s2 ?i =
      stored_under self ?i @ filter (\<lambda>e. evaluation_id e = ?i) es"
    by (simp add: stored_under_in_order under1)
  have kept: "priv_example_evaluations (store_evaluation_overview ov ?s2) =
      priv_example_evaluations ?s2" if "overview_id ov = ?i"
    using reg2 that by (auto simp: store_evaluation_overview_def Let_def keys_lookup)
  have last: "example_evaluations (store_evaluation_overview ov ?s2) ?i =
      Inr (sort_key example_id (stored_under self ?i @ filter (\<lambda>e. evaluation_id e = ?i) es))"
    if "overview_id ov = ?i"
  proof -
    have "example_evaluations (store_evaluation_overview ov ?s2) ?i = example_evaluations ?s2 ?i"
      using kept [OF that] by (simp add: example_evaluations_def)
    with example_evaluations_registered [OF reg2] under2 show ?thesis by simp
  qed
  from first kept last show ?thesis by simp
qed

theorem C7_partial_overview_shares_results_witness:
  "example_evaluations
     (store_partial_evaluation_overview \<lparr>partial_overview_id = ''eval-1'', partial_metadata = ()\<rparr>
        (AsyncInMemoryEvaluationRepository_init :: (unit, unit, unit) AsyncInMemoryEvaluationRepository))
     ''eval-1'' = Inr [] \<and>
   example_evaluations
     (store_evaluation_overview \<lparr>overview_id = ''eval-1'', run_metadata = ()\<rparr>
        (store_example_evaluations_in_order
           [\<lparr>evaluation_id = ''eval-1'', example_id = ''b'', result = ()\<rparr>,
            \<lparr>evaluation_id = ''eval-1'', example_id = ''a'', result = ()\<rparr>]
           (store_partial_evaluation_overview \<lparr>partial_overview_id = ''eval-1'', partial_metadata = ()\<rparr>
              (AsyncInMemoryEvaluationRepository_init :: (unit, unit, unit) AsyncInMemoryEvaluationRepository))))
     ''eval-1''
   = Inr [\<lparr>evaluation_id = ''eval-1'', example_id = ''a'', result = ()\<rparr>,
          \<lparr>evaluation_id = ''eval-1'', example_id = ''b'', result = ()\<rparr>]"
  using C7_partial_overview_shares_results
    [of "\<lparr>partial_overview_id = ''eval-1'', partial_metadata = ()\<rparr>"
        "AsyncInMemoryEvaluationRepository_init :: (unit, unit, unit) AsyncInMemoryEvaluationRepository"
        "\<lparr>overview_id = ''eval-1'', run_metadata = ()\<rparr>"
        "[\<lparr>evaluation_id = ''eval-1'', example_id = ''b'', result = ()\<rparr>,
          \<lparr>evaluation_id = ''eval-1'', example_id = ''a'', result = ()\<rparr>]"]
  by (simp add: stored_under_def AsyncInMemoryEvaluationRepository_init_def)

text \<open>
  C8. \<open>store_evaluation_overview\<close> is an idempotent upsert by overview id: storing an
  overview any number of times more leaves the repository as storing it once does.
  \<open>evaluation_overview_ids()\<close> is, in every repository, sorted and free of duplicates,
  and its elements are the ids that \<open>evaluation_overview\<close> knows; after a store, also a
  repeated one, the id stored is in it once.
\<close>

theorem C8_store_evaluation_overview_idempotent_sorted_ids:
  "(store_evaluation_overview ov ^^ Suc n) self = store_evaluation_overview ov self \<and>
   sorted (evaluation_overview_ids self) \<and>
   distinct (evaluation_overview_ids self) \<and>
   set (evaluation_overview_ids self) = {i. evaluation_overview self i \<noteq> None} \<and>
   set (evaluation_overview_ids (store_evaluation_overview ov self)) =
     insert (overview_id ov) (set (evaluation_overview_ids self)) \<and>
   count_list (evaluation_overview_ids ((store_evaluation_overview ov ^^ Suc n) self)) (overview_id ov) = 1"
proof -
  have d: "distinct (evaluation_overview_ids s)" for s :: "('a, 'b, 'c) InMemoryEvaluationRepository_scheme"
    by (simp add: evaluation_overview_ids_def distinct_keys)
  have m: "overview_id ov \<in> set (evaluation_overview_ids (store_evaluation_overview ov self))"
    by (simp add: evaluation_overview_ids_def keys_store_evaluation_overview)
  have "count_list (evaluation_overview_ids (store_evaluation_overview ov self)) (overview_id ov) = 1"
    using d [of "store_evaluation_overview ov self"] m by (rule count_list_distinct)
  then show ?thesis
    using d [of self]
    by (auto simp: store_evaluation_overview_funpow evaluation_overview_ids_def
        keys_store_evaluation_overview keys_lookup evaluation_overview_def
        simp del: funpow.simps)
qed

text \<open>
  C9. For an overview id registered in the repository, with the collection \<open>xs\<close> stored
  under it, \<open>example_evaluation(overview_id, example_id, T)\<close> returns the first result with
  that example id in the sorted collection; this is the first such result of \<open>xs\<close>, and
  it is \<open>None\<close> exactly when no result of \<open>xs\<close> carries that example id.
\<close>

theorem C9_example_evaluation_first_match:
  assumes "DAList.lookup (priv_example_evaluations self) i = Some xs"
  shows "example_evaluation self i x =
           Inr (List.find (\<lambda>e. example_id e = x) (sort_key example_id xs)) \<and>
         example_evaluation self i x = Inr (List.find (\<lambda>e. example_id e = x) xs) \<and>
         (example_evaluation self i x = Inr None \<longleftrightarrow> (\<forall>e\<in>set xs. example_id e \<noteq> x)) \<and>
         (\<forall>e. example_evaluation self i x = Inr (Some e) \<longrightarrow> e \<in> set xs \<and> example_id e = x)"
proof -
  have 1: "example_evaluation self i x =
             Inr (List.find (\<lambda>e. example_id e = x) (sort_key example_id xs))"
    using assms by (simp add: example_evaluation_def example_evaluations_lookup)
  have 2: "List.find (\<lambda>e. example_id e = x) (sort_key example_id xs) =
             List.find (\<lambda>e. example_id e = x) xs"
    by (rule find_sort_key_stable)
  have 3: "List.find (\<lambda>e. example_id e = x) xs = None \<longleftrightarrow> (\<forall>e\<in>set xs. example_id e \<noteq> x)"
    by (auto simp: find_None_iff)
  have 4: "e \<in> set xs \<and> example_id e = x" if "List.find (\<lambda>e. example_id e = x) xs = Some e" for e
    using that by (auto simp: find_Some_iff)
  from 1 2 3 4 show ?thesis by simp
qed

theorem C9_example_evaluation_first_match_witness:
  "example_evaluation
     (store_example_evaluations_in_order
        [\<lparr>evaluation_id = ''eval-1'', example_id = ''b'', result = (1::nat)\<rparr>,
         \<lparr>evaluation_id = ''eval-1'', example_id = ''a'', result = 2\<rparr>,
         \<lparr>evaluation_id = ''eval-1'', example_id = ''a'', result = 3\<rparr>]
        (InMemoryEvaluationRepository_init :: (nat, unit) InMemoryEvaluationRepository))
     ''eval-1'' ''a''
   = Inr (Some \<lparr>evaluation_id = ''eval-1'', example_id = ''a'', result = 2\<rparr>) \<and>
   example_evaluation
     (store_example_evaluations_in_order
        [\<lparr>evaluation_id = ''eval-1'', example_id = ''b'', result = (1::nat)\<rparr>,
         \<lparr>evaluation_id = ''eval-1'', example_id = ''a'', result = 2\<rparr>,
         \<lparr>evaluation_id = ''eval-1'', example_id = ''a'', result = 3\<rparr>]
        (InMemoryEvaluationRepository_init :: (nat, unit) InMemoryEvaluationRepository))
     ''eval-1'' ''c''
   = Inr None"
  using
    C9_example_evaluation_first_match
      [of "store_example_evaluations_in_order
             [\<lparr>evaluation_id = ''eval-1'', example_id = ''b'', result = (1::nat)\<rparr>,
              \<lparr>evaluation_id = ''eval-1'', example_id = ''a'', result = 2\<rparr>,
              \<lparr>evaluation_id = ''eval-1'', example_id = ''a'', result = 3\<rparr>]
             (InMemoryEvaluationRepository_init :: (nat, unit) InMemoryEvaluationRepository)"
          "''eval-1''"
          "[\<lparr>evaluation_id = ''eval-1'', example_id = ''b'', result = (1::nat)\<rparr>,
            \<lparr>evaluation_id = ''eval-1'', example_id = ''a'', result = 2\<rparr>,
            \<lparr>evaluation_id = ''eval-1'', example_id = ''a'', result = 3\<rparr>]"
          "''a''"]
    C9_example_evaluation_first_match
      [of "store_example_evaluations_in_order
             [\<lparr>evaluation_id = ''eval-1'', example_id = ''b'', result = (1::nat)\<rparr>,
              \<lparr>evaluation_id = ''eval-1'', example_id = ''a'', result = 2\<rparr>,
              \<lparr>evaluation_id = ''eval-1'', example_id = ''a'', result = 3\<rparr>]
             (InMemoryEvaluationRepository_init :: (nat, unit) InMemoryEvaluationRepository)"
          "''eval-1''"
          "[\<lparr>evaluation_id = ''eval-1'', example_id = ''b'', result = (1::nat)\<rparr>,
            \<lparr>evaluation_id = ''eval-1'', example_id = ''a'', result = 2\<rparr>,
            \<lparr>evaluation_id = ''eval-1'', example_id = ''a'', result = 3\<rparr>]"
          "''c''"]
  by (simp add: ee_store_example_evaluation stored_under_def InMemoryEvaluationRepository_init_def)

section \<open>Properties of the model abstraction\<close>

subsection \<open>The request of a third-generation control model\<close>

lemma shaped_request_list:
  assumes "stop_sequences (objects h input) = Some l"
  shows "to_completion_request (fst (add_eot_token_to_stop_sequences h input))
           (snd (add_eot_token_to_stop_sequences h input)) =
         \<lparr>request_stop_sequences =
            Some (if EOT_TOKEN \<notin> set (lists h l) then lists h l @ [EOT_TOKEN] else lists h l),
          request_other_fields = other_fields (objects h input)\<rparr>"
  using assms
  by (simp add: add_eot_token_to_stop_sequences_def new_CompleteInput_def CompleteInput_init_def
      new_list_def to_completion_request_def read_stop_sequences_def Let_def)

lemma complete_sends_shaped_request:
  "snd (snd (Llama3InstructModel_complete client model_name h input tracer)) =
     client (to_completion_request (fst (add_eot_token_to_stop_sequences h input))
               (snd (add_eot_token_to_stop_sequences h input))) model_name"
  by (simp add: Llama3InstructModel_complete_def AlephAlphaModel_complete_def Complete_do_run_def
      split: prod.splits)

text \<open>
  C4 (as amended). When the input's \<open>stop_sequences\<close> list is empty,
  \<open>Llama3InstructModel.complete\<close> sends the client a request whose stop-sequence list is
  exactly \<open>["<|eot_id|>"]\<close>. When the input's list already contains the marker, the
  request carries the input's list as it is: no marker is added, so the marker occurs in
  the request as often as in the input (once when the input holds it once).
\<close>

theorem C4_request_stop_sequences:
  "(read_stop_sequences h input = Some [] \<longrightarrow>
      snd (snd (Llama3InstructModel_complete client model_name h input tracer)) =
        client \<lparr>request_stop_sequences = Some [EOT_TOKEN],
                request_other_fields = other_fields (objects h input)\<rparr> model_name) \<and>
   (\<forall>ss. read_stop_sequences h input = Some ss \<and> EOT_TOKEN \<in> set ss \<longrightarrow>
      snd (snd (Llama3InstructModel_complete client model_name h input tracer)) =
        client \<lparr>request_stop_sequences = Some ss,
                request_other_fields = other_fields (objects h input)\<rparr> model_name)"
proof (cases "stop_sequences (objects h input)")
  case None
  then show ?thesis by (simp add: read_stop_sequences_def)
next
  case (Some l)
  then have r: "read_stop_sequences h input = Some (lists h l)"
    by (simp add: read_stop_sequences_def)
  show ?thesis
    unfolding complete_sends_shaped_request shaped_request_list [OF Some] r
    by auto
qed

theorem C4_request_stop_sequences_witness:
  "read_stop_sequences (heap_with_input (Some [])) 0 = Some [] \<and>
   snd (snd (Llama3InstructModel_complete recording_client ''llama-3-8b-instruct''
               (heap_with_input (Some [])) 0 [])) =
     (\<lparr>request_stop_sequences = Some [EOT_TOKEN], request_other_fields = ()\<rparr>,
      ''llama-3-8b-instruct'') \<and>
   read_stop_sequences (heap_with_input (Some [''###'', EOT_TOKEN])) 0 = Some [''###'', EOT_TOKEN] \<and>
   EOT_TOKEN \<in> set [''###'', EOT_TOKEN] \<and>
   snd (snd (Llama3InstructModel_complete recording_client ''llama-3-8b-instruct''
               (heap_with_input (Some [''###'', EOT_TOKEN])) 0 [])) =
     (\<lparr>request_stop_sequences = Some [''###'', EOT_TOKEN], request_other_fields = ()\<rparr>,
      ''llama-3-8b-instruct'')"
proof -
  have a: "read_stop_sequences (heap_with_input (Some [])) 0 = Some []"
    by (simp add: read_stop_sequences_def heap_with_input_def CompleteInput_init_def
        new_list_def empty_heap_def)
  have b: "read_stop_sequences (heap_with_input (Some [''###'', EOT_TOKEN])) 0 =
             Some [''###'', EOT_TOKEN]"
    by (simp add: read_stop_sequences_def heap_with_input_def CompleteInput_init_def
        new_list_def empty_heap_def)
  have c: "EOT_TOKEN \<in> set [''###'', EOT_TOKEN]" by simp
  have o: "other_fields (objects (heap_with_input ss) 0) = ()" for ss by simp
  from C4_request_stop_sequences
         [of "heap_with_input (Some [])" 0 recording_client "''llama-3-8b-instruct''" "[]"] a
  have 1: "snd (snd (Llama3InstructModel_complete recording_client ''llama-3-8b-instruct''
               (heap_with_input (Some [])) 0 [])) =
     (\<lparr>request_stop_sequences = Some [EOT_TOKEN], request_other_fields = ()\<rparr>,
      ''llama-3-8b-instruct'')"
    by (simp add: recording_client_def)
  from C4_request_stop_sequences
         [of "heap_with_input (Some [''###'', EOT_TOKEN])" 0 recording_client
             "''llama-3-8b-instruct''" "[]"] b c
  have 2: "snd (snd (Llama3InstructModel_complete recording_client ''llama-3-8b-instruct''
               (heap_with_input (Some [''###'', EOT_TOKEN])) 0 [])) =
     (\<lparr>request_stop_sequences = Some [''###'', EOT_TOKEN], request_other_fields = ()\<rparr>,
      ''llama-3-8b-instruct'')"
    by (simp add: recording_client_def)
  from a b c 1 2 show ?thesis by simp
qed

theorem C4_marker_twice_counterexample:
  "read_stop_sequences (heap_with_input (Some [EOT_TOKEN, EOT_TOKEN])) 0 =
     Some [EOT_TOKEN, EOT_TOKEN] \<and>
   snd (snd (Llama3InstructModel_complete recording_client ''llama-3-8b-instruct''
               (heap_with_input (Some [EOT_TOKEN, EOT_TOKEN])) 0 [])) =
     (\<lparr>request_stop_sequences = Some [EOT_TOKEN, EOT_TOKEN], request_other_fields = ()\<rparr>,
      ''llama-3-8b-instruct'') \<and>
   count_list [EOT_TOKEN, EOT_TOKEN] EOT_TOKEN \<noteq> 1"
  by (simp add: Llama3InstructModel_complete_def AlephAlphaModel_complete_def Complete_do_run_def
      add_eot_token_to_stop_sequences_def new_CompleteInput_def CompleteInput_init_def
      new_list_def to_completion_request_def read_stop_sequences_def heap_with_input_def
      empty_heap_def recording_client_def Let_def)

text \<open>
  C5. The claim: \<open>Llama3InstructModel.complete\<close> leaves the caller's input as it was. The
  code at an input with the empty stop-sequence list, and at an input with no list: after
  the call the caller's object holds \<open>["<|eot_id|>"]\<close>.
\<close>

theorem C5_complete_changes_the_input:
  "read_stop_sequences (heap_with_input (Some [])) 0 = Some [] \<and>
   read_stop_sequences
     (fst (Llama3InstructModel_complete recording_client ''llama-3-8b-instruct''
             (heap_with_input (Some [])) 0 [])) 0 = Some [EOT_TOKEN] \<and>
   read_stop_sequences (heap_with_input None) 0 = None \<and>
   read_stop_sequences
     (fst (Llama3InstructModel_complete recording_client ''llama-3-8b-instruct''
             (heap_with_input None) 0 [])) 0 = Some [EOT_TOKEN]"
  by (simp add: Llama3InstructModel_complete_def AlephAlphaModel_complete_def Complete_do_run_def
      add_eot_token_to_stop_sequences_def new_CompleteInput_def CompleteInput_init_def
      new_list_def to_completion_request_def read_stop_sequences_def heap_with_input_def
      empty_heap_def recording_client_def Let_def split: prod.splits)

subsection \<open>The context size and its cache\<close>

lemma find_name_absent:
  "List.find (\<lambda>m. info_name m = n) models_info = None \<longleftrightarrow> n \<notin> info_name ` set models_info"
  unfolding find_None_iff image_iff by (rule iffI; metis)

lemma context_size_body_raises:
  "(\<exists>e. context_size_body models_info self = Inl e) \<longleftrightarrow>
     name self \<notin> info_name ` set models_info"
  unfolding find_name_absent [symmetric]
  by (simp add: context_size_body_def split: option.splits)

lemma context_size_miss:
  assumes "map_of cache (object_id self) = None"
  shows "fst (context_size models_info cache self) = context_size_body models_info self"
  using assms by (simp add: context_size_def lru_cache_def split: sum.splits)

lemma context_size_hit:
  assumes "map_of cache (object_id self) = Some v"
  shows "fst (context_size models_info cache self) = Inr v"
  using assms by (simp add: context_size_def lru_cache_def)

lemma map_of_snoc_fresh:
  "map_of xs k = None \<Longrightarrow> map_of (xs @ [(k, v)]) k = Some v"
  by (simp add: map_add_def)

lemma map_of_tl_None: "map_of xs k = None \<Longrightarrow> map_of (tl xs) k = None"
  by (cases xs) (auto split: if_splits)

lemma map_of_filter_other: "map_of (filter (\<lambda>entry. fst entry \<noteq> k) xs) k = None"
  by (induction xs) auto

lemma context_size_caches_result:
  assumes "fst (context_size models_info cache self) = Inr v"
  shows "map_of (snd (context_size models_info cache self)) (object_id self) = Some v"
proof (cases "map_of cache (object_id self)")
  case None
  with assms have b: "context_size_body models_info self = Inr v"
    by (simp add: context_size_miss)
  have "map_of (if 10 \<le> length cache then tl cache else cache) (object_id self) = None"
    using None by (simp add: map_of_tl_None)
  then have "map_of ((if 10 \<le> length cache then tl cache else cache) @ [(object_id self, v)])
               (object_id self) = Some v"
    by (rule map_of_snoc_fresh)
  with None b show ?thesis by (simp add: context_size_def lru_cache_def)
next
  case (Some w)
  with assms have "w = v" by (simp add: context_size_hit)
  with Some map_of_snoc_fresh [OF map_of_filter_other, of "object_id self" cache v]
  show ?thesis by (simp add: context_size_def lru_cache_def)
qed

text \<open>
  C10 (as amended). A read of \<open>context_size\<close> for which the cache holds no result of the
  model object, as the first read of every object is, queries the registry: it raises,
  and then the \<open>ValueError\<close> naming the model, exactly when no entry of the client's model
  registry has the model's name, and returns the \<open>max_context_size\<close> of the first entry
  with that name when there is one. A read for which the cache holds a result of the
  object returns that result, whatever the registry and the object's name are then. A
  result that a read returns is in the cache after it.
\<close>

theorem C10_context_size:
  "(map_of cache (object_id self) = None \<longrightarrow>
      ((\<exists>e. fst (context_size models_info cache self) = Inl e) \<longleftrightarrow>
         name self \<notin> info_name ` set models_info) \<and>
      (name self \<notin> info_name ` set models_info \<longrightarrow>
         fst (context_size models_info cache self) =
           Inl (ValueError (''No matching model found for name '' @ name self))) \<and>
      (\<forall>model_info.
         List.find (\<lambda>m. info_name m = name self) models_info = Some model_info \<longrightarrow>
         fst (context_size models_info cache self) = Inr (max_context_size model_info))) \<and>
   (\<forall>v. map_of cache (object_id self) = Some v \<longrightarrow>
      fst (context_size models_info cache self) = Inr v) \<and>
   (\<forall>v. fst (context_size models_info cache self) = Inr v \<longrightarrow>
      map_of (snd (context_size models_info cache self)) (object_id self) = Some v)"
proof -
  have absent: "context_size_body models_info self =
      Inl (ValueError (''No matching model found for name '' @ name self))"
    if "name self \<notin> info_name ` set models_info"
    using that unfolding find_name_absent [symmetric] by (simp add: context_size_body_def)
  have found: "context_size_body models_info self = Inr (max_context_size model_info)"
    if "List.find (\<lambda>m. info_name m = name self) models_info = Some model_info" for model_info
    using that by (simp add: context_size_body_def)
  have miss: "((\<exists>e. fst (context_size models_info cache self) = Inl e) \<longleftrightarrow>
         name self \<notin> info_name ` set models_info) \<and>
      (name self \<notin> info_name ` set models_info \<longrightarrow>
         fst (context_size models_info cache self) =
           Inl (ValueError (''No matching model found for name '' @ name self))) \<and>
      (\<forall>model_info.
         List.find (\<lambda>m. info_name m = name self) models_info = Some model_info \<longrightarrow>
         fst (context_size models_info cache self) = Inr (max_context_size model_info))"
    if "map_of cache (object_id self) = None"
    unfolding context_size_miss [OF that]
    using absent found context_size_body_raises [of models_info self] by simp
  from miss context_size_hit [of cache self _ models_info]
    context_size_caches_result [of models_info cache self]
  show ?thesis by blast
qed

theorem C10_context_size_witness:
  "map_of ([] :: (nat \<times> int) list) (object_id \<lparr>object_id = 0, name = ''llama-3-8b-instruct''\<rparr>) = None \<and>
   fst (context_size
          [\<lparr>info_name = ''luminous-base'', max_context_size = 2048\<rparr>,
           \<lparr>info_name = ''llama-3-8b-instruct'', max_context_size = 8192\<rparr>] []
          \<lparr>object_id = 0, name = ''llama-3-8b-instruct''\<rparr>) = Inr 8192 \<and>
   fst (context_size
          [\<lparr>info_name = ''luminous-base'', max_context_size = 2048\<rparr>,
           \<lparr>info_name = ''llama-3-8b-instruct'', max_context_size = 8192\<rparr>] []
          \<lparr>object_id = 1, name = ''llama-2-7b-chat''\<rparr>) =
     Inl (ValueError ''No matching model found for name llama-2-7b-chat'') \<and>
   map_of [(0, 8192 :: int)] (object_id \<lparr>object_id = 0, name = ''llama-3-8b-instruct''\<rparr>) = Some 8192 \<and>
   fst (context_size
          [\<lparr>info_name = ''luminous-base'', max_context_size = 2048\<rparr>,
           \<lparr>info_name = ''llama-3-8b-instruct'', max_context_size = 8192\<rparr>] [(0, 8192)]
          \<lparr>object_id = 0, name = ''llama-3-8b-instruct''\<rparr>) = Inr 8192 \<and>
   map_of (snd (context_size
          [\<lparr>info_name = ''luminous-base'', max_context_size = 2048\<rparr>,
           \<lparr>info_name = ''llama-3-8b-instruct'', max_context_size = 8192\<rparr>] []
          \<lparr>object_id = 0, name = ''llama-3-8b-instruct''\<rparr>)) 0 = Some 8192"
proof -
  let ?ms = "[\<lparr>info_name = ''luminous-base'', max_context_size = 2048\<rparr>,
              \<lparr>info_name = ''llama-3-8b-instruct'', max_context_size = 8192\<rparr>]"
  let ?m = "\<lparr>object_id = 0, name = ''llama-3-8b-instruct''\<rparr>"
  from C10_context_size [of "[]" ?m ?ms]
  have 1: "fst (context_size ?ms [] ?m) = Inr 8192"
    and 4: "map_of (snd (context_size ?ms [] ?m)) 0 = Some 8192"
    by simp_all
  from C10_context_size [of "[]" "\<lparr>object_id = 1, name = ''llama-2-7b-chat''\<rparr>" ?ms]
  have 2: "fst (context_size ?ms [] \<lparr>object_id = 1, name = ''llama-2-7b-chat''\<rparr>) =
             Inl (ValueError ''No matching model found for name llama-2-7b-chat'')"
    by simp
  from C10_context_size [of "[(0, 8192)]" ?m ?ms]
  have 3: "fst (context_size ?ms [(0, 8192)] ?m) = Inr 8192"
    by simp
  from 1 2 3 4 show ?thesis by simp
qed

theorem C10_cached_read_counterexample:
  "fst (context_size []
          (snd (context_size [\<lparr>info_name = ''llama-3-8b-instruct'', max_context_size = 8192\<rparr>] []
                  \<lparr>object_id = 0, name = ''llama-3-8b-instruct''\<rparr>))
          \<lparr>object_id = 0, name = ''llama-3-8b-instruct''\<rparr>) = Inr 8192 \<and>
   name \<lparr>object_id = 0, name = ''llama-3-8b-instruct''\<rparr> \<notin> info_name ` set [] \<and>
   fst (context_size [\<lparr>info_name = ''llama-3-8b-instruct'', max_context_size = 8192\<rparr>]
          (snd (context_size [\<lparr>info_name = ''llama-3-8b-instruct'', max_context_size = 8192\<rparr>] []
                  \<lparr>object_id = 0, name = ''llama-3-8b-instruct''\<rparr>))
          \<lparr>object_id = 0, name = ''llama-2-7b-chat''\<rparr>) = Inr 8192 \<and>
   name \<lparr>object_id = 0, name = ''llama-2-7b-chat''\<rparr> \<notin>
     info_name ` set [\<lparr>info_name = ''llama-3-8b-instruct'', max_context_size = 8192\<rparr>]"
  by (simp add: context_size_def lru_cache_def context_size_body_def)

end
